theory Spec2Isabelle
  imports Complex_Main
begin

section \<open>Strings and Python helpers\<close>

text \<open>
  A Python \<open>str\<close> is modelled as a HOL \<open>string\<close>, one \<open>char\<close> per character of the
  credential. The message literals of the source that contain characters outside ASCII
  (the warning sign and the other pictographs) are spelled by their UTF-8 bytes; only
  their identity matters below, never their length.
\<close>

text \<open>\<open>s.startswith(p)\<close>.\<close>

definition startswith :: "string \<Rightarrow> string \<Rightarrow> bool" where
  "startswith s p = (take (length p) s = p)"

text \<open>\<open>s[:n]\<close> for a literal \<open>n \<ge> 0\<close>, and \<open>s[-n:]\<close> for a literal \<open>n > 0\<close>: Python
  clips both to the string, so a string shorter than \<open>n\<close> is returned whole.\<close>

definition slice_to :: "nat \<Rightarrow> string \<Rightarrow> string" where
  "slice_to n s = take n s"

definition slice_last :: "nat \<Rightarrow> string \<Rightarrow> string" where
  "slice_last n s = drop (length s - n) s"

text \<open>\<open>str(n)\<close> of a non-negative integer, as the f-strings print \<open>len(...)\<close>.\<close>

fun str_nat :: "nat \<Rightarrow> string" where
  "str_nat n =
     (if n < 10 then [''0123456789'' ! n]
      else str_nat (n div 10) @ [''0123456789'' ! (n mod 10)])"

declare str_nat.simps [simp del]

section \<open>Configuration loader (module level, lines 40--79)\<close>

text \<open>
  \<open>mask_api_key\<close>, lines 64--68:
  \<^verbatim>\<open>
  if len(key) <= 11:
      return "*" * len(key)
  return f"{key[:7]}...{key[-4:]}"
  \<close>
\<close>

definition mask_api_key :: "string \<Rightarrow> string" where
  "mask_api_key key =
     (if length key \<le> 11 then replicate (length key) CHR ''*''
      else slice_to 7 key @ ''...'' @ slice_last 4 key)"

text \<open>The two messages of the \<open>ValueError\<close>s raised at lines 43 and 50.\<close>

definition missing_key_message :: string where
  "missing_key_message =
     ''OPENAI_API_KEY environment variable is required. '' @
     ''Please set it in your .env file or environment.''"

definition warning_sign :: string where
  "warning_sign = [CHR 0xE2, CHR 0x9A, CHR 0xA0, CHR 0xEF, CHR 0xB8, CHR 0x8F]"

definition reference_key_message :: string where
  "reference_key_message =
     warning_sign @ ''  ERROR: API key appears to be a 1Password reference (op://...).'' @
     [CHR 0x0A] @
     ''You need to use the actual API key value, not the 1Password reference.'' @
     [CHR 0x0A] @
     ''Please copy the actual key from 1Password (starts with '' @ [CHR 0x27] @ ''sk-'' @
     [CHR 0x27] @ '') and update your .env file.''"

datatype startup_error = ValueError string

text \<open>
  What the module has done when its body has run to the end: the lines it printed,
  and the credential the upstream client was built with (line 79). Only then can the
  application object be served (by \<open>uvicorn.run\<close> at line 181, or by the server that
  imported the module).
\<close>

record startup =
  printed :: "string list"
  client_api_key :: string

definition rule_line :: string where
  "rule_line = replicate 60 CHR ''=''"

text \<open>The warnings of lines 56--61, which print and do not raise.\<close>

definition prefix_warning :: "string \<Rightarrow> string list" where
  "prefix_warning key =
     (if \<not> startswith key ''sk-'' then
        [warning_sign @ ''  WARNING: API key doesn'' @ [CHR 0x27] @ ''t start with '' @
           [CHR 0x27] @ ''sk-'' @ [CHR 0x27] @
           ''. This may not be a valid OpenAI API key.'',
         ''   Key starts with: '' @ slice_to 10 key @ ''...'']
      else [])"

definition length_warning :: "string \<Rightarrow> string list" where
  "length_warning key =
     (if length key < 40 then
        [warning_sign @ ''  WARNING: API key seems too short ('' @ str_nat (length key) @
           '' chars). OpenAI keys are typically 50+ characters.'']
      else [])"

text \<open>The banner of lines 70--77.\<close>

definition banner :: "string \<Rightarrow> string list" where
  "banner key =
     [[CHR 0x0A] @ rule_line,
      [CHR 0xF0, CHR 0x9F, CHR 0x9A, CHR 0x80] @
        '' TanStack AI FastAPI Server Starting (OpenAI)...'',
      rule_line,
      [CHR 0xE2, CHR 0x9C, CHR 0x85] @ '' OPENAI_API_KEY loaded: '' @ mask_api_key key,
      ''   Key length: '' @ str_nat (length key) @ '' characters'',
      [CHR 0xF0, CHR 0x9F, CHR 0x8C, CHR 0x90] @ '' Server will start on: http://0.0.0.0:8001'',
      ''   (Note: If running with uvicorn manually, use: '' @
        ''uvicorn openai-server:app --reload --port 8001)'',
      rule_line @ [CHR 0x0A]]"

text \<open>
  The module body from line 41 on, as a function of what \<open>os.getenv("OPENAI_API_KEY")\<close>
  returned (\<open>None\<close> when the variable is unset). \<open>not OPENAI_API_KEY\<close> is true for
  \<open>None\<close> and for the empty string. A raise ends the import: nothing after it runs.
\<close>

definition load_config :: "string option \<Rightarrow> startup_error + startup" where
  "load_config getenv =
     (case getenv of
        None \<Rightarrow> Inl (ValueError missing_key_message)
      | Some key \<Rightarrow>
          if key = [] then Inl (ValueError missing_key_message)
          else if startswith key ''op://'' then Inl (ValueError reference_key_message)
          else Inr \<lparr>printed = prefix_warning key @ length_warning key @ banner key,
                    client_api_key = key\<rparr>)"

text \<open>The process: it serves only when the module body returned.\<close>

datatype process = Exited startup_error | Serving startup

definition main :: "string option \<Rightarrow> process" where
  "main getenv = (case load_config getenv of Inl e \<Rightarrow> Exited e | Inr s \<Rightarrow> Serving s)"

section \<open>Request model (lines 82--92)\<close>

text \<open>
  \<open>Any\<close>: the Python values a JSON document deserialises to. \<open>JNull\<close> is \<open>None\<close>.
  A \<open>dict\<close> is the list of its items; \<open>JFloat\<close> carries the number a finite float
  denotes.
\<close>

datatype json =
    JNull
  | JBool bool
  | JInt int
  | JFloat real
  | JStr string
  | JList "json list"
  | JDict "(string \<times> json) list"

type_synonym dict = "(string \<times> json) list"

text \<open>\<open>d.get(k)\<close>: the value, or \<open>None\<close> when the key is absent.\<close>

definition dict_get :: "dict \<Rightarrow> string \<Rightarrow> json" where
  "dict_get d k = (case map_of d k of None \<Rightarrow> JNull | Some v \<Rightarrow> v)"

text \<open>Python's truth value of an object, as \<open>if\<close> and \<open>and\<close> test it.\<close>

fun truthy :: "json \<Rightarrow> bool" where
  "truthy JNull = False"
| "truthy (JBool b) = b"
| "truthy (JInt i) = (i \<noteq> 0)"
| "truthy (JFloat r) = (r \<noteq> 0)"
| "truthy (JStr s) = (s \<noteq> [])"
| "truthy (JList xs) = (xs \<noteq> [])"
| "truthy (JDict kvs) = (kvs \<noteq> [])"

record Message =
  role :: string
  content :: "string option"
  name :: "string option"
  toolCalls :: "dict list option"
  toolCallId :: "string option"

record ChatRequest =
  messages :: "Message list"
  data :: "dict option"

subsection \<open>Deserialising a body into the declared classes\<close>

text \<open>
  The framework validates the JSON body of \<open>POST /chat\<close> against the class
  \<open>ChatRequest\<close> before the handler runs. What follows reads the field declarations of
  lines 82--92: a field without a default is required, a field declared \<open>Optional\<close>
  with default \<open>None\<close> may be absent or null, a \<open>List\<close> is validated element by
  element and has no length constraint, keys that are not declared are ignored.
  \<open>None\<close> is a validation failure.
\<close>

definition validate_str :: "json \<Rightarrow> string option" where
  "validate_str v = (case v of JStr s \<Rightarrow> Some s | _ \<Rightarrow> None)"

definition validate_dict :: "json \<Rightarrow> dict option" where
  "validate_dict v = (case v of JDict kvs \<Rightarrow> Some kvs | _ \<Rightarrow> None)"

definition validate_list :: "(json \<Rightarrow> 'a option) \<Rightarrow> json \<Rightarrow> 'a list option" where
  "validate_list f v = (case v of JList xs \<Rightarrow> those (map f xs) | _ \<Rightarrow> None)"

definition validate_optional :: "(json \<Rightarrow> 'a option) \<Rightarrow> json option \<Rightarrow> 'a option option" where
  "validate_optional f field =
     (case field of
        None \<Rightarrow> Some None
      | Some JNull \<Rightarrow> Some None
      | Some v \<Rightarrow> (case f v of None \<Rightarrow> None | Some x \<Rightarrow> Some (Some x)))"

definition validate_Message :: "json \<Rightarrow> Message option" where
  "validate_Message v =
     (case v of
        JDict kvs \<Rightarrow>
          (case map_of kvs ''role'' of
             None \<Rightarrow> None
           | Some r \<Rightarrow>
               (case (validate_str r,
                      validate_optional validate_str (map_of kvs ''content''),
                      validate_optional validate_str (map_of kvs ''name''),
                      validate_optional (validate_list validate_dict) (map_of kvs ''toolCalls''),
                      validate_optional validate_str (map_of kvs ''toolCallId'')) of
                  (Some r', Some c, Some n, Some tc, Some tid) \<Rightarrow>
                    Some \<lparr>role = r', content = c, name = n, toolCalls = tc, toolCallId = tid\<rparr>
                | _ \<Rightarrow> None))
      | _ \<Rightarrow> None)"

definition validate_ChatRequest :: "json \<Rightarrow> ChatRequest option" where
  "validate_ChatRequest v =
     (case v of
        JDict kvs \<Rightarrow>
          (case map_of kvs ''messages'' of
             None \<Rightarrow> None
           | Some ms \<Rightarrow>
               (case (validate_list validate_Message ms,
                      validate_optional validate_dict (map_of kvs ''data'')) of
                  (Some ms', Some d) \<Rightarrow> Some \<lparr>messages = ms', data = d\<rparr>
                | _ \<Rightarrow> None))
      | _ \<Rightarrow> None)"

section \<open>External collaborators\<close>

text \<open>
  An instance of \<open>Exception\<close>, the class both \<open>except\<close> clauses catch: the name of its
  type and \<open>str(e)\<close>, the two things the handlers read from it (lines 152 and
  169--170).
\<close>

datatype exn = Exn (exn_type: string) (exn_str: string)

text \<open>The keyword arguments of \<open>client.chat.completions.create\<close>, lines 123--129.\<close>

record 'pm create_params =
  cp_model :: json
  cp_messages :: 'pm
  cp_max_tokens :: nat
  cp_temperature :: real
  cp_stream :: bool

text \<open>
  The upstream stream, as \<open>async for\<close> sees it: the events it delivers, and then either
  exhaustion (\<open>None\<close>) or an exception raised by the iteration.
\<close>

datatype 'ev upstream = Upstream (events: "'ev list") (failure: "exn option")

text \<open>
  The library functions and the upstream client. None of them is part of this
  repository, so each is a parameter, and each call may raise instead of returning
  (\<open>Inl\<close>). The converter is an object with state of its own (\<open>'conv\<close>):
  \<open>convert_event\<close> returns the state it leaves behind, also when it raises. Its answer
  is the sequence of chunks that line 139 iterates; \<open>Inl\<close> stands for every way in
  which line 137 or the start of that iteration raises, since in each the exception
  reaches line 151 before a chunk of the event is yielded.

  Two operations on the objects the library hands back belong here as well, since what
  they do is decided by the class of the object: \<open>len(openai_messages)\<close> (line 106) on
  the adapter's result, and \<open>chunk.get("type", "unknown")\<close> on a chunk, together with
  the formatting of the tag it returns (lines 141--142). Both raise when the object
  does not support the operation.
\<close>

record ('ev, 'chunk, 'conv, 'pm) collaborators =
  format_messages_for_openai :: "Message list \<Rightarrow> exn + 'pm"
  len_openai_messages :: "'pm \<Rightarrow> exn + nat"
  StreamChunkConverter :: "json \<Rightarrow> string \<Rightarrow> exn + 'conv"
  chat_completions_create :: "'pm create_params \<Rightarrow> exn + 'ev upstream"
  convert_event :: "'conv \<Rightarrow> 'ev \<Rightarrow> (exn + 'chunk list) \<times> 'conv"
  convert_error :: "'conv \<Rightarrow> exn \<Rightarrow> exn + 'chunk"
  chunk_get_type :: "'chunk \<Rightarrow> exn + json"
  format_sse_chunk :: "'chunk \<Rightarrow> exn + string"
  format_sse_done :: "exn + string"

section \<open>Stream relay: \<open>generate_stream\<close> (lines 115--155)\<close>

text \<open>
  A frame is a string the generator yields. The constructor records which \<open>yield\<close>
  produced it: line 143 (a data frame), line 149 (the completion marker) or line 155
  (the error frame).

  Every statement of the generator that can raise is a step of the model: the upstream
  call, the iteration, \<open>convert_event\<close>, the read of the chunk's type tag (lines
  141--142), the two serialisers and \<open>convert_error\<close>. What is left out cannot raise:
  the two integer counters, and the other calls to \<open>logger\<close>, whose arguments are
  built from those counters, from \<open>type(...).__name__\<close> and from the model.
\<close>

datatype frame = DataFrame string | DoneFrame string | ErrorFrame string

fun is_data :: "frame \<Rightarrow> bool" where
  "is_data (DataFrame s) = True"
| "is_data f = False"

fun is_done :: "frame \<Rightarrow> bool" where
  "is_done (DoneFrame s) = True"
| "is_done f = False"

fun is_error :: "frame \<Rightarrow> bool" where
  "is_error (ErrorFrame s) = True"
| "is_error f = False"

text \<open>
  Lines 139--143, the loop over the chunks of one event: for each chunk the tag is read
  (\<open>chunk_type = chunk.get("type", "unknown")\<close>, line 141) and then the serialised chunk
  is yielded (line 143). The result is the frames yielded, and the exception that ended
  the loop, if one did.
\<close>

fun send_chunks ::
  "('ev, 'chunk, 'conv, 'pm) collaborators \<Rightarrow> 'chunk list \<Rightarrow> frame list \<times> exn option" where
  "send_chunks E [] = ([], None)"
| "send_chunks E (chunk # chunks) =
     (case chunk_get_type E chunk of
        Inl e \<Rightarrow> ([], Some e)
      | Inr chunk_type \<Rightarrow>
          (case format_sse_chunk E chunk of
             Inl e \<Rightarrow> ([], Some e)
           | Inr s \<Rightarrow> (case send_chunks E chunks of (fs, r) \<Rightarrow> (DataFrame s # fs, r))))"

text \<open>
  Lines 132--143, \<open>async for event in stream\<close> over the events the stream delivers:
  the frames yielded, the exception that ended the loop, if one did, and the state of
  the converter afterwards.
\<close>

fun relay_events ::
  "('ev, 'chunk, 'conv, 'pm) collaborators \<Rightarrow> 'conv \<Rightarrow> 'ev list \<Rightarrow>
     frame list \<times> exn option \<times> 'conv" where
  "relay_events E converter [] = ([], None, converter)"
| "relay_events E converter (event # rest) =
     (case convert_event E converter event of
        (Inl e, converter') \<Rightarrow> ([], Some e, converter')
      | (Inr chunks, converter') \<Rightarrow>
          (case send_chunks E chunks of
             (fs, Some e) \<Rightarrow> (fs, Some e, converter')
           | (fs, None) \<Rightarrow>
               (case relay_events E converter' rest of
                  (fs', r, converter'') \<Rightarrow> (fs @ fs', r, converter''))))"

text \<open>
  The keyword arguments of the upstream call, lines 123--129, for a model and an
  adapted message list.
\<close>

definition upstream_call :: "json \<Rightarrow> 'pm \<Rightarrow> 'pm create_params" where
  "upstream_call model openai_messages =
     \<lparr>cp_model = model, cp_messages = openai_messages, cp_max_tokens = 1024,
      cp_temperature = 7 / 10, cp_stream = True\<rparr>"

text \<open>What one run of the \<open>try\<close> block (lines 119--149) did.\<close>

record ('conv, 'pm) attempt =
  yielded :: "frame list"
  raised :: "exn option"
  converter_after :: 'conv
  calls :: "'pm create_params list"

definition try_block ::
  "('ev, 'chunk, 'conv, 'pm) collaborators \<Rightarrow> json \<Rightarrow> 'pm \<Rightarrow> 'conv \<Rightarrow> ('conv, 'pm) attempt" where
  "try_block E model openai_messages converter =
     (let params = upstream_call model openai_messages
      in case chat_completions_create E params of
           Inl e \<Rightarrow> \<lparr>yielded = [], raised = Some e, converter_after = converter,
                      calls = [params]\<rparr>
         | Inr stream \<Rightarrow>
             (case relay_events E converter (events stream) of
                (fs, Some e, converter') \<Rightarrow>
                  \<lparr>yielded = fs, raised = Some e, converter_after = converter',
                   calls = [params]\<rparr>
              | (fs, None, converter') \<Rightarrow>
                  (case failure stream of
                     Some e \<Rightarrow>
                       \<lparr>yielded = fs, raised = Some e, converter_after = converter',
                        calls = [params]\<rparr>
                   | None \<Rightarrow>
                       (case format_sse_done E of
                          Inl e \<Rightarrow>
                            \<lparr>yielded = fs, raised = Some e, converter_after = converter',
                             calls = [params]\<rparr>
                        | Inr d \<Rightarrow>
                            \<lparr>yielded = fs @ [DoneFrame d], raised = None,
                             converter_after = converter', calls = [params]\<rparr>))))"

text \<open>
  What the consumer of the generator sees: the frames in the order they were yielded,
  the exception that left the generator (one raised inside the \<open>except\<close> clause,
  lines 151--155, is not caught by anything), and the upstream calls made.
\<close>

record 'pm generated =
  frames :: "frame list"
  escaped :: "exn option"
  upstream_calls :: "'pm create_params list"

definition generate_stream ::
  "('ev, 'chunk, 'conv, 'pm) collaborators \<Rightarrow> json \<Rightarrow> 'pm \<Rightarrow> 'conv \<Rightarrow> 'pm generated" where
  "generate_stream E model openai_messages converter =
     (let t = try_block E model openai_messages converter
      in case raised t of
           None \<Rightarrow> \<lparr>frames = yielded t, escaped = None, upstream_calls = calls t\<rparr>
         | Some e \<Rightarrow>
             (case convert_error E (converter_after t) e of
                Inl e' \<Rightarrow> \<lparr>frames = yielded t, escaped = Some e', upstream_calls = calls t\<rparr>
              | Inr error_chunk \<Rightarrow>
                  (case format_sse_chunk E error_chunk of
                     Inl e' \<Rightarrow>
                       \<lparr>frames = yielded t, escaped = Some e', upstream_calls = calls t\<rparr>
                   | Inr s \<Rightarrow>
                       \<lparr>frames = yielded t @ [ErrorFrame s], escaped = None,
                        upstream_calls = calls t\<rparr>)))"

section \<open>HTTP endpoints (lines 95--176)\<close>

record HTTPException =
  status_code :: nat
  detail :: string

record 'pm StreamingResponse =
  body_iterator :: "'pm generated"
  media_type :: string
  headers :: "(string \<times> string) list"

text \<open>
  Line 109, the value bound to \<open>model\<close>:
  \<^verbatim>\<open>request.data.get("model") if request.data and request.data.get("model") else "gpt-4o"\<close>
\<close>

definition request_model :: "ChatRequest \<Rightarrow> json" where
  "request_model request =
     (case data request of
        None \<Rightarrow> JStr ''gpt-4o''
      | Some d \<Rightarrow>
          if d \<noteq> [] \<and> truthy (dict_get d ''model'') then dict_get d ''model''
          else JStr ''gpt-4o'')"

text \<open>
  \<open>chat_endpoint\<close>, lines 101--170. Whatever is raised before the response object is
  returned is caught at line 168 and raised again as an \<open>HTTPException\<close>. The
  statements of the \<open>try\<close> block that can raise are the adapter (line 105),
  \<open>len(openai_messages)\<close> in the log message of line 106, and the construction of the
  converter (line 113). The others cannot, on a validated request:
  \<open>len(request.messages)\<close> is the length of a list, line 109 reads a \<open>dict\<close> or
  \<open>None\<close>, line 110 formats that value, and lines 115--166 define the generator and
  build the response object without running the generator.
\<close>

definition chat_endpoint ::
  "('ev, 'chunk, 'conv, 'pm) collaborators \<Rightarrow> ChatRequest \<Rightarrow>
     HTTPException + 'pm StreamingResponse" where
  "chat_endpoint E request =
     (case format_messages_for_openai E (messages request) of
        Inl e \<Rightarrow> Inl \<lparr>status_code = 500, detail = exn_str e\<rparr>
      | Inr openai_messages \<Rightarrow>
          (case len_openai_messages E openai_messages of
             Inl e \<Rightarrow> Inl \<lparr>status_code = 500, detail = exn_str e\<rparr>
           | Inr n \<Rightarrow>
               (let model = request_model request
                in case StreamChunkConverter E model ''openai'' of
                     Inl e \<Rightarrow> Inl \<lparr>status_code = 500, detail = exn_str e\<rparr>
                   | Inr converter \<Rightarrow>
                       Inr \<lparr>body_iterator =
                              generate_stream E model openai_messages converter,
                            media_type = ''text/event-stream'',
                            headers = [(''Cache-Control'', ''no-cache''),
                                       (''Connection'', ''keep-alive''),
                                       (''X-Accel-Buffering'', ''no'')]\<rparr>)))"

text \<open>\<open>health_check\<close>, lines 173--176.\<close>

definition health_check :: json where
  "health_check = JDict [(''status'', JStr ''ok''), (''service'', JStr ''tanstack-ai-fastapi-openai'')]"

subsection \<open>The two routes as the framework serves them\<close>

text \<open>
  The decorators of lines 95 and 173 register the two handlers. For a request the
  framework: answers 422 when the body of \<open>POST /chat\<close> does not validate against
  \<open>ChatRequest\<close>, without calling the handler; turns an \<open>HTTPException\<close> into a response
  with its status code and the body \<open>{"detail": ...}\<close>; sends a returned dictionary as
  JSON and a returned \<open>StreamingResponse\<close> as it is, both with the default status 200.
\<close>

datatype http_method = GET | POST | OtherMethod

record http_request =
  http_method :: http_method
  path :: string
  json_body :: "json option"

datatype 'pm payload =
    Json json
  | ValidationDetail
  | EventStream "'pm StreamingResponse"
  | NoRoute

record 'pm http_response =
  status :: nat
  payload :: "'pm payload"

definition post_chat ::
  "('ev, 'chunk, 'conv, 'pm) collaborators \<Rightarrow> json option \<Rightarrow> 'pm http_response" where
  "post_chat E body =
     (case body of
        None \<Rightarrow> \<lparr>status = 422, payload = ValidationDetail\<rparr>
      | Some v \<Rightarrow>
          (case validate_ChatRequest v of
             None \<Rightarrow> \<lparr>status = 422, payload = ValidationDetail\<rparr>
           | Some request \<Rightarrow>
               (case chat_endpoint E request of
                  Inl h \<Rightarrow> \<lparr>status = status_code h,
                             payload = Json (JDict [(''detail'', JStr (detail h))])\<rparr>
                | Inr r \<Rightarrow> \<lparr>status = 200, payload = EventStream r\<rparr>)))"

definition get_health :: "'pm http_response" where
  "get_health = \<lparr>status = 200, payload = Json health_check\<rparr>"

text \<open>
  Routing, for the requests the two decorators cover; \<open>None\<close> stands for every other
  request, which is the framework's alone to answer.
\<close>

definition app ::
  "('ev, 'chunk, 'conv, 'pm) collaborators \<Rightarrow> http_request \<Rightarrow> 'pm http_response option" where
  "app E rq =
     (if http_method rq = POST \<and> path rq = ''/chat'' then Some (post_chat E (json_body rq))
      else if http_method rq = GET \<and> path rq = ''/health'' then Some get_health
      else None)"

section \<open>Describing the collaborators' behaviour on a run\<close>

text \<open>
  What the converter object, starting in state \<open>converter\<close>, answers when it is fed the
  events one after another, and the state it is in afterwards.
\<close>

fun converter_run ::
  "('ev, 'chunk, 'conv, 'pm) collaborators \<Rightarrow> 'conv \<Rightarrow> 'ev list \<Rightarrow> (exn + 'chunk list) list" where
  "converter_run E converter [] = []"
| "converter_run E converter (event # rest) =
     (case convert_event E converter event of
        (r, converter') \<Rightarrow> r # converter_run E converter' rest)"

fun converter_state ::
  "('ev, 'chunk, 'conv, 'pm) collaborators \<Rightarrow> 'conv \<Rightarrow> 'ev list \<Rightarrow> 'conv" where
  "converter_state E converter [] = converter"
| "converter_state E converter (event # rest) =
     (case convert_event E converter event of
        (r, converter') \<Rightarrow> converter_state E converter' rest)"

text \<open>
  The events \<open>evs\<close> go through the relay: the converter answers them with the chunk
  lists \<open>css\<close>, and for every chunk, in order, the tag read returns and the serialiser
  returns, the serialised chunks being \<open>ss\<close>.
\<close>

abbreviation relayed ::
  "('ev, 'chunk, 'conv, 'pm) collaborators \<Rightarrow> 'conv \<Rightarrow> 'ev list \<Rightarrow> 'chunk list list \<Rightarrow>
     string list \<Rightarrow> bool" where
  "relayed E converter evs css ss \<equiv>
     converter_run E converter evs = map Inr css \<and>
     (\<exists>ts. map (chunk_get_type E) (concat css) = map Inr ts) \<and>
     map (format_sse_chunk E) (concat css) = map Inr ss"


text \<open>
  Nothing raises between the upstream call and the completion marker: the call
  returns a stream that is exhausted after its events, the events go through the
  relay, and the marker is serialised.
\<close>

abbreviation completes ::
  "('ev, 'chunk, 'conv, 'pm) collaborators \<Rightarrow> json \<Rightarrow> 'pm \<Rightarrow> 'conv \<Rightarrow> bool" where
  "completes E model openai_messages converter \<equiv>
     (\<exists>evs css ss d.
        chat_completions_create E (upstream_call model openai_messages) =
          Inr (Upstream evs None) \<and>
        relayed E converter evs css ss \<and>
        format_sse_done E = Inr d)"

subsection \<open>A concrete set of collaborators\<close>

text \<open>
  A small stand-in for the library and the provider, on which the theorems below are
  exercised. An event is the list of text deltas it carries and converts to one chunk
  per delta, a dictionary with a type tag; the delta \<open>raw\<close> is passed on as a bare
  string, on which the tag cannot be read. The converter counts the events it has seen
  and raises on an event that carries \<open>poison\<close>. The provider rejects an empty
  message list, breaks the connection after two events for the model \<open>flaky\<close>, and
  otherwise delivers three events, the second of which carries nothing.
\<close>

definition render :: "json \<Rightarrow> string" where
  "render c =
     (case c of
        JDict kvs \<Rightarrow>
          (case (map_of kvs ''type'', map_of kvs ''delta'') of
             (Some (JStr t), Some (JStr d)) \<Rightarrow> t @ '':'' @ d
           | _ \<Rightarrow> [])
      | _ \<Rightarrow> [])"

definition content_chunk :: "string \<Rightarrow> json" where
  "content_chunk d = JDict [(''type'', JStr ''content''), (''delta'', JStr d)]"

definition example :: "(string list, json, nat, string list) collaborators" where
  "example =
     \<lparr>format_messages_for_openai =
        (\<lambda>ms. if ''bogus'' \<in> set (map role ms)
              then Inl (Exn ''ValueError'' ''unknown role'')
              else Inr (map role ms)),
      len_openai_messages = (\<lambda>pm. Inr (length pm)),
      StreamChunkConverter =
        (\<lambda>model provider. if model = JStr ''unknown''
              then Inl (Exn ''ValueError'' ''unsupported model'')
              else Inr 0),
      chat_completions_create =
        (\<lambda>p. if cp_messages p = []
              then Inl (Exn ''BadRequestError'' ''messages: array too short'')
             else if cp_model p = JStr ''flaky''
              then Inr (Upstream [[''Hel'', ''lo''], [''!'']]
                          (Some (Exn ''APIConnectionError'' ''connection reset'')))
             else if cp_model p = JStr ''toxic''
              then Inr (Upstream [[''a''], [''poison''], [''b'']] None)
             else if cp_model p = JStr ''untagged''
              then Inr (Upstream [[''a''], [''b'', ''raw'', ''c'']] None)
             else Inr (Upstream [[''Hel'', ''lo''], [], [''!'']] None)),
      convert_event =
        (\<lambda>n ev. if ''poison'' \<in> set ev
              then (Inl (Exn ''KeyError'' ''delta''), Suc n)
              else (Inr (map (\<lambda>d. if d = ''raw'' then JStr d else content_chunk d) ev),
                    Suc n)),
      convert_error =
        (\<lambda>n e. Inr (JDict [(''type'', JStr ''error''), (''delta'', JStr (exn_str e))])),
      chunk_get_type =
        (\<lambda>c. case c of
               JDict kvs \<Rightarrow> Inr (case map_of kvs ''type'' of None \<Rightarrow> JStr ''unknown'' | Some t \<Rightarrow> t)
             | _ \<Rightarrow> Inl (Exn ''AttributeError'' ''get'')),
      format_sse_chunk = (\<lambda>c. Inr (''data: '' @ render c)),
      format_sse_done = Inr ''data: [DONE]''\<rparr>"

definition user_message :: Message where
  "user_message =
     \<lparr>role = ''user'', content = Some ''hi'', name = None, toolCalls = None,
      toolCallId = None\<rparr>"

section \<open>The credential and its masked form\<close>

lemma replicate_self_iff: "replicate (length xs) c = xs \<longleftrightarrow> set xs \<subseteq> {c}"
proof
  assume "replicate (length xs) c = xs"
  then have "set xs = set (replicate (length xs) c)" by simp
  then show "set xs \<subseteq> {c}" by auto
next
  assume "set xs \<subseteq> {c}"
  then have "\<forall>y\<in>set xs. y = c" by auto
  then show "replicate (length xs) c = xs" by (rule replicate_length_same)
qed

lemma mask_long_length: "11 < length key \<Longrightarrow> length (mask_api_key key) = 14"
  by (simp add: mask_api_key_def slice_to_def slice_last_def)

lemma split_7_3: "key = take 7 key @ take 3 (drop 7 key) @ drop 10 key"
proof -
  have "take 3 (drop 7 key) @ drop 3 (drop 7 key) = drop 7 key"
    by (rule append_take_drop_id)
  then have "take 3 (drop 7 key) @ drop 10 key = drop 7 key" by simp
  then have "take 7 key @ take 3 (drop 7 key) @ drop 10 key = take 7 key @ drop 7 key"
    by simp
  then show ?thesis by simp
qed

lemma mask_14:
  assumes "length key = 14"
  shows "mask_api_key key = take 7 key @ ''...'' @ drop 10 key"
  using assms by (simp add: mask_api_key_def slice_to_def slice_last_def)

lemma mask_long_fixed:
  assumes "11 < length key"
  shows "mask_api_key key = key \<longleftrightarrow> length key = 14 \<and> take 3 (drop 7 key) = ''...''"
proof
  assume eq: "mask_api_key key = key"
  have len: "length key = 14" using mask_long_length [OF assms] eq by simp
  have "take 7 key @ ''...'' @ drop 10 key = take 7 key @ take 3 (drop 7 key) @ drop 10 key"
    using eq mask_14 [OF len] split_7_3 [of key] by simp
  then have "take 3 (drop 7 key) = ''...''" by simp
  with len show "length key = 14 \<and> take 3 (drop 7 key) = ''...''" by simp
next
  assume a: "length key = 14 \<and> take 3 (drop 7 key) = ''...''"
  then have "mask_api_key key = take 7 key @ take 3 (drop 7 key) @ drop 10 key"
    using mask_14 by simp
  then show "mask_api_key key = key" using split_7_3 [of key] by simp
qed

lemma mask_short_fixed:
  assumes "length key \<le> 11"
  shows "mask_api_key key = key \<longleftrightarrow> set key \<subseteq> {CHR ''*''}"
  using assms by (simp add: mask_api_key_def replicate_self_iff)

text \<open>
  C10. A credential of at most 11 characters is masked to as many asterisks as it has
  characters, and to nothing else: the masked form is a function of the length alone,
  so two credentials of the same short length are masked alike.
\<close>

theorem mask_api_key_short:
  assumes "length key \<le> 11"
  shows "mask_api_key key = replicate (length key) CHR ''*'' \<and>
         length (mask_api_key key) = length key \<and>
         set (mask_api_key key) \<subseteq> {CHR ''*''} \<and>
         (\<forall>key'. length key' = length key \<longrightarrow> mask_api_key key' = mask_api_key key)"
  using assms by (auto simp: mask_api_key_def)

theorem mask_api_key_short_witness:
  "length ''sk-12345678'' \<le> 11 \<and> mask_api_key ''sk-12345678'' = ''***********'' \<and>
   mask_api_key ''AAAAAAAAAAA'' = mask_api_key ''sk-12345678''"
  using mask_api_key_short [of "''sk-12345678''"] by simp

text \<open>
  C6, as stated, fails: a credential of at most 11 characters shows none of its first
  seven characters, a credential made of asterisks is masked to itself, and so is a
  credential of 14 characters whose characters 8 to 10 are three full stops.
\<close>

theorem mask_api_key_counterexample:
  "take 7 (mask_api_key ''sk-12345678'') \<noteq> take 7 ''sk-12345678'' \<and>
   mask_api_key ''***'' = ''***'' \<and> ''***'' \<noteq> [] \<and>
   mask_api_key ''sk-abcd...wxyz'' = ''sk-abcd...wxyz'' \<and> ''sk-abcd...wxyz'' \<noteq> []"
  by (simp add: mask_api_key_def slice_to_def slice_last_def)

text \<open>
  C6, amended. A credential of more than 11 characters is masked to its first seven
  characters, three full stops and its last four characters, 14 characters in all
  whatever lay between; a credential of at most 11 characters is masked to asterisks.
  The masked form equals the credential in exactly two cases: the credential has at
  most 11 characters, all of them asterisks, or it has 14 characters and its
  characters 8 to 10 are three full stops.
\<close>

theorem mask_api_key_shape:
  "(length key \<le> 11 \<longrightarrow> mask_api_key key = replicate (length key) CHR ''*'') \<and>
   (11 < length key \<longrightarrow>
      mask_api_key key = take 7 key @ ''...'' @ drop (length key - 4) key \<and>
      length (mask_api_key key) = 14) \<and>
   (mask_api_key key = key \<longleftrightarrow>
      (length key \<le> 11 \<and> set key \<subseteq> {CHR ''*''}) \<or>
      (length key = 14 \<and> take 3 (drop 7 key) = ''...''))"
proof (cases "length key \<le> 11")
  case True
  then show ?thesis using mask_short_fixed [OF True]
    by (simp add: mask_api_key_def)
next
  case False
  then have long: "11 < length key" by simp
  have "mask_api_key key = take 7 key @ ''...'' @ drop (length key - 4) key"
    using long by (simp add: mask_api_key_def slice_to_def slice_last_def)
  then show ?thesis using long mask_long_fixed [OF long] mask_long_length [OF long]
    by auto
qed

theorem mask_api_key_shape_witness:
  "11 < length ''sk-proj-0123456789abcdef'' \<and>
   mask_api_key ''sk-proj-0123456789abcdef'' = ''sk-proj...cdef'' \<and>
   mask_api_key ''sk-proj-0123456789abcdef'' \<noteq> ''sk-proj-0123456789abcdef''"
  using mask_api_key_shape [of "''sk-proj-0123456789abcdef''"] by simp

text \<open>
  The masked form is not the only line of the start-up output that depends on the
  credential: when the credential does not start with \<open>sk-\<close>, the warning of line 58
  prints its first ten characters as they are.
\<close>

lemma load_config_prints_prefix:
  "load_config (Some ''abcdefgh'') = Inr s \<Longrightarrow>
   ''   Key starts with: abcdefgh...'' \<in> set (printed s)"
  by (auto simp: load_config_def startswith_def prefix_warning_def slice_to_def)

section \<open>Refusing to start\<close>

text \<open>
  C4. When the credential variable is unset, or set to the empty string, the module
  body raises \<open>ValueError\<close> with the message of line 43, and the process ends without
  serving.
\<close>

theorem load_config_missing:
  assumes "getenv = None \<or> getenv = Some []"
  shows "load_config getenv = Inl (ValueError missing_key_message) \<and>
         main getenv = Exited (ValueError missing_key_message) \<and>
         (\<forall>s. main getenv \<noteq> Serving s)"
  using assms by (auto simp: load_config_def main_def)

theorem load_config_missing_witness:
  "load_config None = Inl (ValueError missing_key_message) \<and>
   main None = Exited (ValueError missing_key_message) \<and>
   load_config (Some []) = Inl (ValueError missing_key_message) \<and>
   main (Some []) = Exited (ValueError missing_key_message)"
  using load_config_missing [of None] load_config_missing [of "Some []"] by simp

text \<open>
  C5. When the credential starts with \<open>op://\<close>, the module body raises \<open>ValueError\<close>
  with the message of line 50, which is not the message for a missing credential, and
  the process ends without serving.
\<close>

theorem load_config_reference:
  assumes "startswith key ''op://''"
  shows "load_config (Some key) = Inl (ValueError reference_key_message) \<and>
         main (Some key) = Exited (ValueError reference_key_message) \<and>
         (\<forall>s. main (Some key) \<noteq> Serving s) \<and>
         reference_key_message \<noteq> missing_key_message"
proof -
  have "key \<noteq> []" using assms by (auto simp: startswith_def)
  moreover have "reference_key_message \<noteq> missing_key_message"
    by (simp add: reference_key_message_def missing_key_message_def warning_sign_def)
  ultimately show ?thesis using assms by (simp add: load_config_def main_def)
qed

theorem load_config_reference_witness:
  "startswith ''op://vault/openai/key'' ''op://'' \<and>
   load_config (Some ''op://vault/openai/key'') = Inl (ValueError reference_key_message) \<and>
   main (Some ''op://vault/openai/key'') = Exited (ValueError reference_key_message)"
proof -
  have h: "startswith ''op://vault/openai/key'' ''op://''" by (simp add: startswith_def)
  show ?thesis using h load_config_reference [OF h] by simp
qed

section \<open>The stream relay\<close>

subsection \<open>The loop over the chunks of an event\<close>

lemma send_chunks_formatted:
  "map (chunk_get_type E) chunks = map Inr ts \<Longrightarrow>
   map (format_sse_chunk E) chunks = map Inr ss \<Longrightarrow>
   send_chunks E chunks = (map DataFrame ss, None)"
proof (induction chunks arbitrary: ts ss)
  case Nil
  then show ?case by simp
next
  case (Cons c cs)
  from Cons.prems(2) obtain s ss' where ss: "ss = s # ss'" by (cases ss) auto
  from Cons.prems(1) obtain t ts' where ts: "ts = t # ts'" by (cases ts) auto
  from Cons.prems ss ts have h: "chunk_get_type E c = Inr t" "format_sse_chunk E c = Inr s"
    "map (chunk_get_type E) cs = map Inr ts'" "map (format_sse_chunk E) cs = map Inr ss'"
    by auto
  from Cons.IH [OF h(3) h(4)] h(1) h(2) ss show ?case by simp
qed

lemma send_chunks_returned:
  "send_chunks E chunks = (fs, None) \<Longrightarrow>
   \<exists>ts ss. map (chunk_get_type E) chunks = map Inr ts \<and>
           map (format_sse_chunk E) chunks = map Inr ss \<and> fs = map DataFrame ss"
proof (induction chunks arbitrary: fs)
  case Nil
  then show ?case by simp
next
  case (Cons c cs)
  show ?case
  proof (cases "chunk_get_type E c")
    case (Inl e)
    with Cons.prems show ?thesis by simp
  next
    case (Inr t)
    show ?thesis
    proof (cases "format_sse_chunk E c")
      case (Inl e)
      with Inr Cons.prems show ?thesis by simp
    next
      case inr: (Inr s)
      obtain fs' r where sc: "send_chunks E cs = (fs', r)" by (cases "send_chunks E cs")
      with Inr inr Cons.prems have r: "r = None" and fs: "fs = DataFrame s # fs'" by auto
      from Cons.IH [of fs'] sc r obtain ts ss where
        "map (chunk_get_type E) cs = map Inr ts" "map (format_sse_chunk E) cs = map Inr ss"
        "fs' = map DataFrame ss" by auto
      then have "map (chunk_get_type E) (c # cs) = map Inr (t # ts) \<and>
                 map (format_sse_chunk E) (c # cs) = map Inr (s # ss) \<and>
                 fs = map DataFrame (s # ss)"
        using Inr inr fs by simp
      then show ?thesis by blast
    qed
  qed
qed


lemma send_chunks_data: "list_all is_data (fst (send_chunks E chunks))"
  by (induction chunks) (auto split: sum.splits prod.splits)

subsection \<open>The loop over the events\<close>

lemma map_Inr_append:
  assumes "map f (xs @ ys) = map Inr ss"
  shows "map f xs = map Inr (take (length xs) ss) \<and> map f ys = map Inr (drop (length xs) ss)"
proof -
  have "map f xs @ map f ys = map Inr (take (length xs) ss) @ map Inr (drop (length xs) ss)"
    using assms by (simp flip: map_append)
  moreover have "length (map f xs) = length (map Inr (take (length xs) ss))"
  proof -
    have "length (xs @ ys) = length ss" using assms by (metis length_map)
    then show ?thesis by simp
  qed
  ultimately show ?thesis by (metis append_eq_append_conv)
qed

lemma relay_events_data: "list_all is_data (fst (relay_events E cv evs))"
proof (induction evs arbitrary: cv)
  case Nil
  then show ?case by simp
next
  case (Cons ev evs)
  show ?case
  proof (cases "convert_event E cv ev")
    case (Pair r cv')
    show ?thesis
    proof (cases r)
      case (Inl e)
      with Pair show ?thesis by simp
    next
      case (Inr chunks)
      obtain fs x where sc: "send_chunks E chunks = (fs, x)" by (cases "send_chunks E chunks")
      have d: "list_all is_data fs" using send_chunks_data [of E chunks] sc by simp
      obtain fs' r' cv'' where re: "relay_events E cv' evs = (fs', r', cv'')"
        by (cases "relay_events E cv' evs")
      have d': "list_all is_data fs'" using Cons.IH [of cv'] re by simp
      show ?thesis using Pair Inr sc re d d' by (cases x) auto
    qed
  qed
qed

lemma relay_events_formatted:
  "converter_run E cv evs = map Inr css \<Longrightarrow>
   map (chunk_get_type E) (concat css) = map Inr ts \<Longrightarrow>
   map (format_sse_chunk E) (concat css) = map Inr ss \<Longrightarrow>
   relay_events E cv evs = (map DataFrame ss, None, converter_state E cv evs)"
proof (induction evs arbitrary: cv css ts ss)
  case Nil
  then show ?case by simp
next
  case (Cons ev evs)
  obtain r cv' where ce: "convert_event E cv ev = (r, cv')" by (cases "convert_event E cv ev")
  from Cons.prems(1) ce obtain cs css' where css: "css = cs # css'" and r: "r = Inr cs"
    and run: "converter_run E cv' evs = map Inr css'"
    by (cases css) auto
  from Cons.prems(2) css have "map (chunk_get_type E) (cs @ concat css') = map Inr ts" by simp
  from map_Inr_append [OF this]
  have t1: "map (chunk_get_type E) cs = map Inr (take (length cs) ts)"
    and t2: "map (chunk_get_type E) (concat css') = map Inr (drop (length cs) ts)" by auto
  from Cons.prems(3) css have "map (format_sse_chunk E) (cs @ concat css') = map Inr ss" by simp
  from map_Inr_append [OF this]
  have f1: "map (format_sse_chunk E) cs = map Inr (take (length cs) ss)"
    and f2: "map (format_sse_chunk E) (concat css') = map Inr (drop (length cs) ss)" by auto
  have "relay_events E cv' evs = (map DataFrame (drop (length cs) ss), None, converter_state E cv' evs)"
    using Cons.IH [OF run t2 f2] .
  moreover have "send_chunks E cs = (map DataFrame (take (length cs) ss), None)"
    using send_chunks_formatted [OF t1 f1] .
  ultimately show ?case using ce r by (simp flip: map_append)
qed

lemma relay_events_returned:
  "relay_events E cv evs = (fs, None, cv') \<Longrightarrow>
   \<exists>css ts ss. converter_run E cv evs = map Inr css \<and>
               map (chunk_get_type E) (concat css) = map Inr ts \<and>
               map (format_sse_chunk E) (concat css) = map Inr ss \<and>
               fs = map DataFrame ss"
proof (induction evs arbitrary: cv fs)
  case Nil
  then have "converter_run E cv [] = map Inr [] \<and>
             map (chunk_get_type E) (concat []) = map Inr [] \<and>
             map (format_sse_chunk E) (concat []) = map Inr [] \<and> fs = map DataFrame []"
    by simp
  then show ?case by blast
next
  case (Cons ev evs)
  obtain r cv1 where ce: "convert_event E cv ev = (r, cv1)" by (cases "convert_event E cv ev")
  show ?case
  proof (cases r)
    case (Inl e)
    with ce Cons.prems show ?thesis by simp
  next
    case (Inr cs)
    obtain f1 x where sc: "send_chunks E cs = (f1, x)" by (cases "send_chunks E cs")
    show ?thesis
    proof (cases x)
      case (Some e)
      with ce Inr sc Cons.prems show ?thesis by simp
    next
      case None
      obtain f2 r2 cv2 where re: "relay_events E cv1 evs = (f2, r2, cv2)"
        by (cases "relay_events E cv1 evs")
      with ce Inr sc None Cons.prems have r2: "r2 = None" and fs: "fs = f1 @ f2"
        and cv2: "cv2 = cv'" by auto
      from send_chunks_returned [of E cs f1] sc None obtain ts1 ss1 where
        a: "map (chunk_get_type E) cs = map Inr ts1" "map (format_sse_chunk E) cs = map Inr ss1"
        "f1 = map DataFrame ss1" by auto
      from Cons.IH [of cv1 f2] re r2 cv2 obtain css ts2 ss2 where
        b: "converter_run E cv1 evs = map Inr css"
        "map (chunk_get_type E) (concat css) = map Inr ts2"
        "map (format_sse_chunk E) (concat css) = map Inr ss2" "f2 = map DataFrame ss2" by auto
      have "converter_run E cv (ev # evs) = map Inr (cs # css) \<and>
            map (chunk_get_type E) (concat (cs # css)) = map Inr (ts1 @ ts2) \<and>
            map (format_sse_chunk E) (concat (cs # css)) = map Inr (ss1 @ ss2) \<and>
            fs = map DataFrame (ss1 @ ss2)"
        using ce Inr a b fs by simp
      then show ?thesis by blast
    qed
  qed
qed


lemma length_converter_run: "length (converter_run E cv evs) = length evs"
  by (induction evs arbitrary: cv) (auto split: prod.splits)



subsection \<open>The \<open>try\<close> block and the \<open>except\<close> clause\<close>

lemma try_block_calls: "calls (try_block E model msgs cv) = [upstream_call model msgs]"
  by (simp add: try_block_def Let_def split: sum.splits prod.splits option.splits)

lemma relay_events_data_triple:
  "relay_events E cv evs = (fs, r, cv') \<Longrightarrow> list_all is_data fs"
  using relay_events_data [of E cv evs] by simp

lemma try_block_shape:
  "\<exists>fs. list_all is_data fs \<and>
     ((\<exists>e. raised (try_block E model msgs cv) = Some e \<and>
           yielded (try_block E model msgs cv) = fs) \<or>
      (\<exists>d. raised (try_block E model msgs cv) = None \<and>
           yielded (try_block E model msgs cv) = fs @ [DoneFrame d] \<and>
           format_sse_done E = Inr d))"
proof (cases "chat_completions_create E (upstream_call model msgs)")
  case (Inl e)
  then show ?thesis by (simp add: try_block_def)
next
  case (Inr stream)
  obtain fs r cv' where re: "relay_events E cv (events stream) = (fs, r, cv')"
    by (cases "relay_events E cv (events stream)")
  have d: "list_all is_data fs" using relay_events_data_triple [OF re] .
  show ?thesis
  proof (cases r)
    case (Some e)
    with Inr re d show ?thesis by (auto simp: try_block_def)
  next
    case None
    show ?thesis
    proof (cases "failure stream")
      case (Some e)
      with Inr re d None show ?thesis by (auto simp: try_block_def)
    next
      case nofail: None
      show ?thesis
      proof (cases "format_sse_done E")
        case (Inl e)
        with Inr re d None nofail show ?thesis by (auto simp: try_block_def)
      next
        case inr: (Inr dd)
        with Inr re d None nofail show ?thesis by (auto simp: try_block_def)
      qed
    qed
  qed
qed

lemma try_block_raised:
  "raised (try_block E model msgs cv) = Some e \<Longrightarrow>
   list_all is_data (yielded (try_block E model msgs cv))"
  using try_block_shape [of E model msgs cv] by auto

lemma try_block_returned:
  "raised (try_block E model msgs cv) = None \<Longrightarrow>
   \<exists>fs d. yielded (try_block E model msgs cv) = fs @ [DoneFrame d] \<and> list_all is_data fs \<and>
          format_sse_done E = Inr d"
  using try_block_shape [of E model msgs cv] by auto

lemma try_block_completes:
  assumes "chat_completions_create E (upstream_call model msgs) = Inr (Upstream evs None)"
    and "converter_run E cv evs = map Inr css"
    and "map (chunk_get_type E) (concat css) = map Inr ts"
    and "map (format_sse_chunk E) (concat css) = map Inr ss"
    and "format_sse_done E = Inr d"
  shows "try_block E model msgs cv =
           \<lparr>yielded = map DataFrame ss @ [DoneFrame d], raised = None,
            converter_after = converter_state E cv evs, calls = [upstream_call model msgs]\<rparr>"
  using assms(1,5) relay_events_formatted [OF assms(2-4)]
  by (simp add: try_block_def)






lemma try_block_returned_iff:
  "raised (try_block E model msgs cv) = None \<longleftrightarrow> completes E model msgs cv"
proof
  assume c: "completes E model msgs cv"
  then obtain evs css ss d ts where
    h: "chat_completions_create E (upstream_call model msgs) = Inr (Upstream evs None)"
    "converter_run E cv evs = map Inr css"
    "map (chunk_get_type E) (concat css) = map Inr ts"
    "map (format_sse_chunk E) (concat css) = map Inr ss"
    "format_sse_done E = Inr d"
    by (elim exE conjE)
  show "raised (try_block E model msgs cv) = None"
    using try_block_completes [OF h] by simp
next
  assume n: "raised (try_block E model msgs cv) = None"
  show "completes E model msgs cv"
  proof (cases "chat_completions_create E (upstream_call model msgs)")
    case (Inl e)
    with n show ?thesis by (simp add: try_block_def)
  next
    case (Inr stream)
    obtain evs ending where st: "stream = Upstream evs ending" by (cases stream)
    obtain fs r cv' where re: "relay_events E cv evs = (fs, r, cv')"
      by (cases "relay_events E cv evs")
    have r: "r = None" using n Inr st re by (cases r) (simp_all add: try_block_def)
    have en: "ending = None" using n Inr st re r by (cases ending) (simp_all add: try_block_def)
    obtain d where d: "format_sse_done E = Inr d"
      using n Inr st re r en by (cases "format_sse_done E") (simp_all add: try_block_def)
    from relay_events_returned [of E cv evs fs cv'] re r obtain css ts ss where
      "converter_run E cv evs = map Inr css"
      "map (chunk_get_type E) (concat css) = map Inr ts"
      "map (format_sse_chunk E) (concat css) = map Inr ss" by auto
    with Inr st en d show ?thesis by blast
  qed
qed

lemma data_not_done: "list_all is_data fs \<Longrightarrow> \<not> list_ex is_done fs"
proof (induction fs)
  case Nil
  then show ?case by simp
next
  case (Cons f fs)
  then show ?case by (cases f) auto
qed


lemma generate_stream_ends:
  assumes esc: "escaped (generate_stream E model msgs cv) = None"
  shows "\<exists>fs l. frames (generate_stream E model msgs cv) = fs @ [l] \<and>
              list_all is_data fs \<and>
              (is_done l \<longleftrightarrow> completes E model msgs cv) \<and>
              (is_error l \<longleftrightarrow> \<not> completes E model msgs cv)"
proof (cases "raised (try_block E model msgs cv)")
  case None
  then have c: "completes E model msgs cv" by (simp only: try_block_returned_iff)
  from try_block_returned [OF None] obtain fs d where
    y: "yielded (try_block E model msgs cv) = fs @ [DoneFrame d]" and d: "list_all is_data fs"
    by blast
  have "frames (generate_stream E model msgs cv) = fs @ [DoneFrame d]"
    using None y by (simp add: generate_stream_def Let_def)
  with d c show ?thesis by auto
next
  case (Some e)
  then have c: "\<not> completes E model msgs cv"
    using try_block_returned_iff [of E model msgs cv] by simp
  have d: "list_all is_data (yielded (try_block E model msgs cv))"
    using try_block_raised [OF Some] .
  from esc Some obtain c' s where
    "convert_error E (converter_after (try_block E model msgs cv)) e = Inr c'"
    "format_sse_chunk E c' = Inr s"
    by (auto simp: generate_stream_def Let_def split: sum.splits)
  then have "frames (generate_stream E model msgs cv) =
               yielded (try_block E model msgs cv) @ [ErrorFrame s]"
    using Some by (simp add: generate_stream_def Let_def)
  with d c show ?thesis by auto
qed

subsection \<open>The stand-in collaborators\<close>


lemma example_tag: "chunk_get_type example (content_chunk d) = Inr (JStr ''content'')"
  by (simp add: example_def content_chunk_def)

lemma example_format:
  "format_sse_chunk example (content_chunk d) = Inr (''data: content:'' @ d)"
  by (simp add: example_def content_chunk_def render_def)


subsection \<open>Normal completion\<close>

text \<open>
  C1. Let the upstream call return a stream that delivers the events \<open>evs\<close> and is then
  exhausted, let the converter answer event \<open>i\<close> with the chunks \<open>css ! i\<close>, and let
  the tag read and the serialisers return for every chunk (\<open>ss\<close> are the serialised
  chunks, in the order of \<open>concat css\<close>, that is event by event and, within an event,
  in the converter's order). Then the generator yields exactly these data frames in
  this order, followed by the one completion frame, and raises nothing: as many data
  frames as the sum of the lengths of the \<open>css ! i\<close>, and one frame more in total.
\<close>

theorem generate_stream_completes:
  assumes "chat_completions_create E (upstream_call model msgs) = Inr (Upstream evs None)"
    and "converter_run E cv evs = map Inr css"
    and "map (chunk_get_type E) (concat css) = map Inr ts"
    and "map (format_sse_chunk E) (concat css) = map Inr ss"
    and "format_sse_done E = Inr d"
  shows "frames (generate_stream E model msgs cv) = map DataFrame ss @ [DoneFrame d] \<and>
         escaped (generate_stream E model msgs cv) = None \<and>
         length css = length evs \<and>
         length ss = sum_list (map length css) \<and>
         length (frames (generate_stream E model msgs cv)) = sum_list (map length css) + 1"
proof -
  have fr: "frames (generate_stream E model msgs cv) = map DataFrame ss @ [DoneFrame d]"
    and esc: "escaped (generate_stream E model msgs cv) = None"
    using try_block_completes [OF assms] by (simp_all add: generate_stream_def Let_def)
  have "length (map Inr css :: (exn + 'b list) list) = length evs"
    using assms(2) length_converter_run [of E cv evs] by simp
  then have l1: "length css = length evs" by simp
  have "length (map (format_sse_chunk E) (concat css)) = length (map Inr ss :: (exn + string) list)"
    using assms(4) by simp
  then have l2: "length ss = sum_list (map length css)" by (simp add: length_concat)
  show ?thesis using fr esc l1 l2 by simp
qed

theorem generate_stream_completes_witness:
  "chat_completions_create example (upstream_call (JStr ''gpt-4o'') [''user'']) =
     Inr (Upstream [[''Hel'', ''lo''], [], [''!'']] None) \<and>
   converter_run example 0 [[''Hel'', ''lo''], [], [''!'']] =
     map Inr [[content_chunk ''Hel'', content_chunk ''lo''], [], [content_chunk ''!'']] \<and>
   frames (generate_stream example (JStr ''gpt-4o'') [''user''] 0) =
     [DataFrame ''data: content:Hel'', DataFrame ''data: content:lo'',
      DataFrame ''data: content:!'', DoneFrame ''data: [DONE]''] \<and>
   escaped (generate_stream example (JStr ''gpt-4o'') [''user''] 0) = None"
proof -
  have h1: "chat_completions_create example (upstream_call (JStr ''gpt-4o'') [''user'']) =
              Inr (Upstream [[''Hel'', ''lo''], [], [''!'']] None)"
    by (simp add: example_def upstream_call_def)
  have h2: "converter_run example 0 [[''Hel'', ''lo''], [], [''!'']] =
              map Inr [[content_chunk ''Hel'', content_chunk ''lo''], [], [content_chunk ''!'']]"
    by (simp add: example_def)
  have h3: "map (chunk_get_type example)
              (concat [[content_chunk ''Hel'', content_chunk ''lo''], [], [content_chunk ''!'']]) =
            map Inr [JStr ''content'', JStr ''content'', JStr ''content'']"
    by (simp add: example_tag)
  have h4: "map (format_sse_chunk example)
              (concat [[content_chunk ''Hel'', content_chunk ''lo''], [], [content_chunk ''!'']]) =
            map Inr [''data: content:Hel'', ''data: content:lo'', ''data: content:!'']"
    by (simp add: example_format)
  have h5: "format_sse_done example = Inr ''data: [DONE]''"
    by (simp add: example_def)
  show ?thesis using h1 h2 generate_stream_completes [OF h1 h2 h3 h4 h5] by simp
qed

subsection \<open>Failure\<close>



section \<open>The endpoints\<close>

lemma generate_stream_calls:
  "upstream_calls (generate_stream E model msgs cv) = [upstream_call model msgs]"
  by (simp add: generate_stream_def Let_def try_block_calls split: option.splits sum.splits)

lemma request_model_cases:
  "request_model request =
     (case data request of
        None \<Rightarrow> JStr ''gpt-4o''
      | Some d \<Rightarrow>
          (case map_of d ''model'' of
             None \<Rightarrow> JStr ''gpt-4o''
           | Some v \<Rightarrow> if truthy v then v else JStr ''gpt-4o''))"
  by (auto simp: request_model_def dict_get_def split: option.splits)

lemma chat_endpoint_status: "chat_endpoint E request = Inl h \<Longrightarrow> status_code h = 500"
  by (auto simp: chat_endpoint_def Let_def split: sum.splits)

lemma chat_endpoint_raises:
  assumes "format_messages_for_openai E (messages request) = Inl e \<or>
           (\<exists>pm. format_messages_for_openai E (messages request) = Inr pm \<and>
                 len_openai_messages E pm = Inl e) \<or>
           (\<exists>pm n. format_messages_for_openai E (messages request) = Inr pm \<and>
                   len_openai_messages E pm = Inr n \<and>
                   StreamChunkConverter E (request_model request) ''openai'' = Inl e)"
  shows "chat_endpoint E request = Inl \<lparr>status_code = 500, detail = exn_str e\<rparr>"
  using assms by (auto simp: chat_endpoint_def Let_def)

lemma chat_endpoint_raised:
  assumes "chat_endpoint E request = Inl h"
  shows "\<exists>e. detail h = exn_str e \<and>
           (format_messages_for_openai E (messages request) = Inl e \<or>
            (\<exists>pm. format_messages_for_openai E (messages request) = Inr pm \<and>
                  len_openai_messages E pm = Inl e) \<or>
            (\<exists>pm n. format_messages_for_openai E (messages request) = Inr pm \<and>
                    len_openai_messages E pm = Inr n \<and>
                    StreamChunkConverter E (request_model request) ''openai'' = Inl e))"
proof (cases "format_messages_for_openai E (messages request)")
  case (Inl e)
  with assms show ?thesis by (auto simp: chat_endpoint_def)
next
  case (Inr pm)
  show ?thesis
  proof (cases "len_openai_messages E pm")
    case (Inl e)
    with Inr assms show ?thesis by (auto simp: chat_endpoint_def)
  next
    case len: (Inr n)
    show ?thesis
    proof (cases "StreamChunkConverter E (request_model request) ''openai''")
      case (Inl e)
      with Inr len assms show ?thesis by (auto simp: chat_endpoint_def Let_def)
    next
      case c: (Inr cv)
      with Inr len assms show ?thesis by (simp add: chat_endpoint_def Let_def)
    qed
  qed
qed

lemma chat_endpoint_returns:
  assumes "format_messages_for_openai E (messages request) = Inr pm"
    and "len_openai_messages E pm = Inr n"
    and "StreamChunkConverter E (request_model request) ''openai'' = Inr cv"
  shows "chat_endpoint E request =
           Inr \<lparr>body_iterator = generate_stream E (request_model request) pm cv,
                media_type = ''text/event-stream'',
                headers = [(''Cache-Control'', ''no-cache''), (''Connection'', ''keep-alive''),
                           (''X-Accel-Buffering'', ''no'')]\<rparr>"
  using assms by (simp add: chat_endpoint_def Let_def)

subsection \<open>Failure before the stream\<close>

text \<open>
  C3. For a body that validates as the request \<open>request\<close>: when the message
  adapter raises \<open>e\<close>, or it returns and \<open>len\<close> of its result raises \<open>e\<close>, or both
  return and the construction of the converter raises \<open>e\<close>, \<open>chat_endpoint\<close> raises
  \<open>HTTPException\<close> with status code 500 and detail \<open>str(e)\<close>, and the route answers 500
  with the body \<open>{"detail": str(e)}\<close> and no stream. These are the only ways for
  \<open>chat_endpoint\<close> to raise, and the status code is 500 in each.
\<close>

theorem chat_endpoint_pre_stream_failure:
  "validate_ChatRequest v = Some request \<longrightarrow>
     ((format_messages_for_openai E (messages request) = Inl e \<or>
       (\<exists>pm. format_messages_for_openai E (messages request) = Inr pm \<and>
             len_openai_messages E pm = Inl e) \<or>
       (\<exists>pm n. format_messages_for_openai E (messages request) = Inr pm \<and>
               len_openai_messages E pm = Inr n \<and>
               StreamChunkConverter E (request_model request) ''openai'' = Inl e)) \<longrightarrow>
        chat_endpoint E request = Inl \<lparr>status_code = 500, detail = exn_str e\<rparr> \<and>
        post_chat E (Some v) =
          \<lparr>status = 500, payload = Json (JDict [(''detail'', JStr (exn_str e))])\<rparr>) \<and>
     (\<forall>h. chat_endpoint E request = Inl h \<longrightarrow>
        status_code h = 500 \<and>
        (\<exists>e'. detail h = exn_str e' \<and>
           (format_messages_for_openai E (messages request) = Inl e' \<or>
            (\<exists>pm. format_messages_for_openai E (messages request) = Inr pm \<and>
                  len_openai_messages E pm = Inl e') \<or>
            (\<exists>pm n. format_messages_for_openai E (messages request) = Inr pm \<and>
                    len_openai_messages E pm = Inr n \<and>
                    StreamChunkConverter E (request_model request) ''openai'' = Inl e'))))"
proof (rule impI)
  assume v: "validate_ChatRequest v = Some request"
  have p1: "(format_messages_for_openai E (messages request) = Inl e \<or>
       (\<exists>pm. format_messages_for_openai E (messages request) = Inr pm \<and>
             len_openai_messages E pm = Inl e) \<or>
       (\<exists>pm n. format_messages_for_openai E (messages request) = Inr pm \<and>
               len_openai_messages E pm = Inr n \<and>
               StreamChunkConverter E (request_model request) ''openai'' = Inl e)) \<longrightarrow>
        chat_endpoint E request = Inl \<lparr>status_code = 500, detail = exn_str e\<rparr> \<and>
        post_chat E (Some v) =
          \<lparr>status = 500, payload = Json (JDict [(''detail'', JStr (exn_str e))])\<rparr>"
  proof (rule impI)
    assume "format_messages_for_openai E (messages request) = Inl e \<or>
       (\<exists>pm. format_messages_for_openai E (messages request) = Inr pm \<and>
             len_openai_messages E pm = Inl e) \<or>
       (\<exists>pm n. format_messages_for_openai E (messages request) = Inr pm \<and>
               len_openai_messages E pm = Inr n \<and>
               StreamChunkConverter E (request_model request) ''openai'' = Inl e)"
    then have c: "chat_endpoint E request = Inl \<lparr>status_code = 500, detail = exn_str e\<rparr>"
      by (rule chat_endpoint_raises)
    then show "chat_endpoint E request = Inl \<lparr>status_code = 500, detail = exn_str e\<rparr> \<and>
        post_chat E (Some v) =
          \<lparr>status = 500, payload = Json (JDict [(''detail'', JStr (exn_str e))])\<rparr>"
      using v by (simp add: post_chat_def)
  qed
  have p2: "\<forall>h. chat_endpoint E request = Inl h \<longrightarrow>
        status_code h = 500 \<and>
        (\<exists>e'. detail h = exn_str e' \<and>
           (format_messages_for_openai E (messages request) = Inl e' \<or>
            (\<exists>pm. format_messages_for_openai E (messages request) = Inr pm \<and>
                  len_openai_messages E pm = Inl e') \<or>
            (\<exists>pm n. format_messages_for_openai E (messages request) = Inr pm \<and>
                    len_openai_messages E pm = Inr n \<and>
                    StreamChunkConverter E (request_model request) ''openai'' = Inl e')))"
    using chat_endpoint_status [of E request] chat_endpoint_raised [of E request] by blast
  show "((format_messages_for_openai E (messages request) = Inl e \<or>
       (\<exists>pm. format_messages_for_openai E (messages request) = Inr pm \<and>
             len_openai_messages E pm = Inl e) \<or>
       (\<exists>pm n. format_messages_for_openai E (messages request) = Inr pm \<and>
               len_openai_messages E pm = Inr n \<and>
               StreamChunkConverter E (request_model request) ''openai'' = Inl e)) \<longrightarrow>
        chat_endpoint E request = Inl \<lparr>status_code = 500, detail = exn_str e\<rparr> \<and>
        post_chat E (Some v) =
          \<lparr>status = 500, payload = Json (JDict [(''detail'', JStr (exn_str e))])\<rparr>) \<and>
     (\<forall>h. chat_endpoint E request = Inl h \<longrightarrow>
        status_code h = 500 \<and>
        (\<exists>e'. detail h = exn_str e' \<and>
           (format_messages_for_openai E (messages request) = Inl e' \<or>
            (\<exists>pm. format_messages_for_openai E (messages request) = Inr pm \<and>
                  len_openai_messages E pm = Inl e') \<or>
            (\<exists>pm n. format_messages_for_openai E (messages request) = Inr pm \<and>
                    len_openai_messages E pm = Inr n \<and>
                    StreamChunkConverter E (request_model request) ''openai'' = Inl e'))))"
    by (rule conjI [OF p1 p2])
qed

theorem chat_endpoint_pre_stream_failure_witness:
  "validate_ChatRequest
     (JDict [(''messages'', JList [JDict [(''role'', JStr ''bogus'')]])]) =
     Some \<lparr>messages = [\<lparr>role = ''bogus'', content = None, name = None, toolCalls = None,
                        toolCallId = None\<rparr>], data = None\<rparr> \<and>
   format_messages_for_openai example
     [\<lparr>role = ''bogus'', content = None, name = None, toolCalls = None, toolCallId = None\<rparr>] =
     Inl (Exn ''ValueError'' ''unknown role'') \<and>
   post_chat example (Some (JDict [(''messages'', JList [JDict [(''role'', JStr ''bogus'')]])])) =
     \<lparr>status = 500, payload = Json (JDict [(''detail'', JStr ''unknown role'')])\<rparr> \<and>
   post_chat (example\<lparr>len_openai_messages := \<lambda>pm. Inl (Exn ''TypeError'' ''no len'')\<rparr>)
     (Some (JDict [(''messages'', JList [])])) =
     \<lparr>status = 500, payload = Json (JDict [(''detail'', JStr ''no len'')])\<rparr>"
proof -
  have v: "validate_ChatRequest
             (JDict [(''messages'', JList [JDict [(''role'', JStr ''bogus'')]])]) =
           Some \<lparr>messages = [\<lparr>role = ''bogus'', content = None, name = None,
                              toolCalls = None, toolCallId = None\<rparr>], data = None\<rparr>"
    by (simp add: validate_ChatRequest_def validate_list_def validate_Message_def
          validate_str_def validate_optional_def)
  have f: "format_messages_for_openai example
             (messages \<lparr>messages = [\<lparr>role = ''bogus'', content = None, name = None,
                                     toolCalls = None, toolCallId = None\<rparr>], data = None\<rparr>) =
           Inl (Exn ''ValueError'' ''unknown role'')"
    by (simp add: example_def)
  have v2: "validate_ChatRequest (JDict [(''messages'', JList [])]) =
              Some \<lparr>messages = [], data = None\<rparr>"
    by (simp add: validate_ChatRequest_def validate_list_def validate_optional_def)
  have l: "format_messages_for_openai
             (example\<lparr>len_openai_messages := \<lambda>pm. Inl (Exn ''TypeError'' ''no len'')\<rparr>)
             (messages \<lparr>messages = [], data = None\<rparr>) = Inr [] \<and>
           len_openai_messages
             (example\<lparr>len_openai_messages := \<lambda>pm. Inl (Exn ''TypeError'' ''no len'')\<rparr>) [] =
             Inl (Exn ''TypeError'' ''no len'')"
    by (simp add: example_def)
  have d1: "format_messages_for_openai example
             (messages \<lparr>messages = [\<lparr>role = ''bogus'', content = None, name = None,
                                     toolCalls = None, toolCallId = None\<rparr>], data = None\<rparr>) =
             Inl (Exn ''ValueError'' ''unknown role'') \<or>
           (\<exists>pm. format_messages_for_openai example
             (messages \<lparr>messages = [\<lparr>role = ''bogus'', content = None, name = None,
                                     toolCalls = None, toolCallId = None\<rparr>], data = None\<rparr>) =
             Inr pm \<and> len_openai_messages example pm = Inl (Exn ''ValueError'' ''unknown role'')) \<or>
           (\<exists>pm n. format_messages_for_openai example
             (messages \<lparr>messages = [\<lparr>role = ''bogus'', content = None, name = None,
                                     toolCalls = None, toolCallId = None\<rparr>], data = None\<rparr>) =
             Inr pm \<and> len_openai_messages example pm = Inr n \<and>
             StreamChunkConverter example
               (request_model \<lparr>messages = [\<lparr>role = ''bogus'', content = None, name = None,
                                     toolCalls = None, toolCallId = None\<rparr>], data = None\<rparr>)
               ''openai'' = Inl (Exn ''ValueError'' ''unknown role''))"
    using f by (rule disjI1)
  let ?E = "example\<lparr>len_openai_messages := \<lambda>pm. Inl (Exn ''TypeError'' ''no len'')\<rparr>"
  have d2: "format_messages_for_openai ?E (messages \<lparr>messages = [], data = None\<rparr>) =
             Inl (Exn ''TypeError'' ''no len'') \<or>
           (\<exists>pm. format_messages_for_openai ?E (messages \<lparr>messages = [], data = None\<rparr>) =
             Inr pm \<and> len_openai_messages ?E pm = Inl (Exn ''TypeError'' ''no len'')) \<or>
           (\<exists>pm n. format_messages_for_openai ?E (messages \<lparr>messages = [], data = None\<rparr>) =
             Inr pm \<and> len_openai_messages ?E pm = Inr n \<and>
             StreamChunkConverter ?E (request_model \<lparr>messages = [], data = None\<rparr>)
               ''openai'' = Inl (Exn ''TypeError'' ''no len''))"
    using l by (intro disjI2 disjI1 exI [of _ "[]"]) simp
  note T = chat_endpoint_pre_stream_failure
  have r1: "post_chat example
              (Some (JDict [(''messages'', JList [JDict [(''role'', JStr ''bogus'')]])])) =
            \<lparr>status = 500, payload = Json (JDict [(''detail'', JStr ''unknown role'')])\<rparr>"
    using T [THEN mp, OF v, THEN conjunct1, THEN mp, OF d1, THEN conjunct2] by simp
  have r2: "post_chat ?E (Some (JDict [(''messages'', JList [])])) =
            \<lparr>status = 500, payload = Json (JDict [(''detail'', JStr ''no len'')])\<rparr>"
    using T [THEN mp, OF v2, THEN conjunct1, THEN mp, OF d2, THEN conjunct2] by simp
  show ?thesis using v f r1 r2 by simp
qed

subsection \<open>The model of the upstream call\<close>

text \<open>
  C7, as stated, fails: the options mapping \<open>{"model": ""}\<close> is present and contains
  the key, yet the upstream call is made with \<open>gpt-4o\<close> and not with the empty string.
\<close>

theorem upstream_model_counterexample:
  "map_of [(''model'', JStr [])] ''model'' = Some (JStr []) \<and>
   chat_endpoint example \<lparr>messages = [user_message], data = Some [(''model'', JStr [])]\<rparr> =
     Inr \<lparr>body_iterator =
            \<lparr>frames = [DataFrame ''data: content:Hel'', DataFrame ''data: content:lo'',
                       DataFrame ''data: content:!'', DoneFrame ''data: [DONE]''],
             escaped = None,
             upstream_calls =
               [\<lparr>cp_model = JStr ''gpt-4o'', cp_messages = [''user''], cp_max_tokens = 1024,
                 cp_temperature = 7 / 10, cp_stream = True\<rparr>]\<rparr>,
          media_type = ''text/event-stream'',
          headers = [(''Cache-Control'', ''no-cache''), (''Connection'', ''keep-alive''),
                     (''X-Accel-Buffering'', ''no'')]\<rparr> \<and>
   JStr ''gpt-4o'' \<noteq> JStr []"
  by (simp add: chat_endpoint_def Let_def example_def user_message_def request_model_def
        dict_get_def generate_stream_def try_block_def upstream_call_def content_chunk_def
        render_def)

text \<open>
  C7, amended. When \<open>chat_endpoint\<close> returns its response, the generator makes exactly
  one upstream call, and its model is the value of the key \<open>model\<close> of the options
  mapping when the mapping is present, contains the key and the value is true in
  Python's sense (not \<open>None\<close>, \<open>False\<close>, zero or empty), and \<open>gpt-4o\<close> otherwise.
\<close>

theorem upstream_model:
  assumes "chat_endpoint E request = Inr r"
  shows "map cp_model (upstream_calls (body_iterator r)) =
           [case data request of
              None \<Rightarrow> JStr ''gpt-4o''
            | Some d \<Rightarrow>
                (case map_of d ''model'' of
                   None \<Rightarrow> JStr ''gpt-4o''
                 | Some v \<Rightarrow> if truthy v then v else JStr ''gpt-4o'')]"
proof -
  from assms obtain pm cv where
    "r = \<lparr>body_iterator = generate_stream E (request_model request) pm cv,
          media_type = ''text/event-stream'',
          headers = [(''Cache-Control'', ''no-cache''), (''Connection'', ''keep-alive''),
                     (''X-Accel-Buffering'', ''no'')]\<rparr>"
    by (auto simp: chat_endpoint_def Let_def split: sum.splits)
  then have "map cp_model (upstream_calls (body_iterator r)) = [request_model request]"
    by (simp add: generate_stream_calls upstream_call_def)
  then show ?thesis by (simp add: request_model_cases)
qed

theorem upstream_model_witness:
  "chat_endpoint example
     \<lparr>messages = [user_message], data = Some [(''model'', JStr ''flaky'')]\<rparr> =
   Inr \<lparr>body_iterator = generate_stream example (JStr ''flaky'') [''user''] 0,
        media_type = ''text/event-stream'',
        headers = [(''Cache-Control'', ''no-cache''), (''Connection'', ''keep-alive''),
                   (''X-Accel-Buffering'', ''no'')]\<rparr> \<and>
   map cp_model (upstream_calls (generate_stream example (JStr ''flaky'') [''user''] 0)) =
     [JStr ''flaky'']"
proof -
  have h: "chat_endpoint example
             \<lparr>messages = [user_message], data = Some [(''model'', JStr ''flaky'')]\<rparr> =
           Inr \<lparr>body_iterator = generate_stream example (JStr ''flaky'') [''user''] 0,
                media_type = ''text/event-stream'',
                headers = [(''Cache-Control'', ''no-cache''), (''Connection'', ''keep-alive''),
                           (''X-Accel-Buffering'', ''no'')]\<rparr>"
    by (simp add: chat_endpoint_def Let_def example_def user_message_def request_model_def
          dict_get_def)
  show ?thesis using h upstream_model [OF h] by simp
qed

subsection \<open>The health check\<close>

text \<open>
  C8. \<open>GET /health\<close> is answered with status 200 and the body
  \<open>{"status": "ok", "service": "tanstack-ai-fastapi-openai"}\<close>, whatever the
  collaborators are and whatever else the request carries; the answer is a function
  of the request alone, so earlier requests have no part in it.
\<close>

theorem health_always_ok:
  assumes "http_method rq = GET" and "path rq = ''/health''"
  shows "app E rq =
           Some \<lparr>status = 200,
                 payload = Json (JDict [(''status'', JStr ''ok''),
                                        (''service'', JStr ''tanstack-ai-fastapi-openai'')])\<rparr>"
  using assms by (simp add: app_def get_health_def health_check_def)

theorem health_always_ok_witness:
  "app example \<lparr>http_method = GET, path = ''/health'', json_body = None\<rparr> =
     Some \<lparr>status = 200,
           payload = Json (JDict [(''status'', JStr ''ok''),
                                  (''service'', JStr ''tanstack-ai-fastapi-openai'')])\<rparr>"
  using health_always_ok
          [of "\<lparr>http_method = GET, path = ''/health'', json_body = None\<rparr>" example]
  by simp

subsection \<open>An empty message list\<close>

text \<open>
  C9, as stated, fails: with a provider that rejects an empty message list, the body
  \<open>{"messages": []}\<close> is accepted and answered with a stream, and the stream consists
  of the error frame alone: it contains no completion frame.
\<close>

theorem empty_messages_counterexample:
  "post_chat example (Some (JDict [(''messages'', JList [])])) =
     \<lparr>status = 200,
      payload = EventStream
        \<lparr>body_iterator =
           \<lparr>frames = [ErrorFrame ''data: error:messages: array too short''],
            escaped = None,
            upstream_calls = [upstream_call (JStr ''gpt-4o'') []]\<rparr>,
         media_type = ''text/event-stream'',
         headers = [(''Cache-Control'', ''no-cache''), (''Connection'', ''keep-alive''),
                    (''X-Accel-Buffering'', ''no'')]\<rparr>\<rparr> \<and>
   \<not> list_ex is_done [ErrorFrame ''data: error:messages: array too short'']"
  by (simp add: post_chat_def validate_ChatRequest_def validate_list_def
        validate_optional_def chat_endpoint_def Let_def request_model_def example_def
        generate_stream_def try_block_def upstream_call_def render_def)

text \<open>
  C9, amended. A body whose \<open>messages\<close> is the empty list (and whose \<open>data\<close> is
  absent, null or an object) validates, is not answered with 422, and is handled as
  every other request is. When the adapter, \<open>len\<close> of its result or the construction
  of the converter raises \<open>e\<close>, the answer is 500 with the detail \<open>str(e)\<close>. When the
  three return, the answer is the stream of \<open>generate_stream\<close> with status 200; if the
  generator ends it without an exception of its own, it consists of data frames
  followed by exactly one last frame, which is the completion frame exactly when
  nothing raised between the upstream call and the completion marker, and the error
  frame exactly when something did.
\<close>

theorem post_chat_empty_messages:
  assumes "map_of kvs ''messages'' = Some (JList [])"
    and "validate_optional validate_dict (map_of kvs ''data'') = Some d"
  shows "validate_ChatRequest (JDict kvs) = Some \<lparr>messages = [], data = d\<rparr> \<and>
         status (post_chat E (Some (JDict kvs))) \<noteq> 422 \<and>
         (\<forall>e. format_messages_for_openai E [] = Inl e \<or>
               (\<exists>pm. format_messages_for_openai E [] = Inr pm \<and>
                     len_openai_messages E pm = Inl e) \<or>
               (\<exists>pm n. format_messages_for_openai E [] = Inr pm \<and>
                       len_openai_messages E pm = Inr n \<and>
                       StreamChunkConverter E (request_model \<lparr>messages = [], data = d\<rparr>)
                         ''openai'' = Inl e) \<longrightarrow>
               post_chat E (Some (JDict kvs)) =
                 \<lparr>status = 500, payload = Json (JDict [(''detail'', JStr (exn_str e))])\<rparr>) \<and>
         (\<forall>pm n cv.
            format_messages_for_openai E [] = Inr pm \<and>
            len_openai_messages E pm = Inr n \<and>
            StreamChunkConverter E (request_model \<lparr>messages = [], data = d\<rparr>) ''openai'' =
              Inr cv \<longrightarrow>
            post_chat E (Some (JDict kvs)) =
              \<lparr>status = 200,
               payload = EventStream
                 \<lparr>body_iterator =
                    generate_stream E (request_model \<lparr>messages = [], data = d\<rparr>) pm cv,
                  media_type = ''text/event-stream'',
                  headers = [(''Cache-Control'', ''no-cache''), (''Connection'', ''keep-alive''),
                             (''X-Accel-Buffering'', ''no'')]\<rparr>\<rparr> \<and>
            (escaped (generate_stream E (request_model \<lparr>messages = [], data = d\<rparr>) pm cv) = None
             \<longrightarrow>
             (\<exists>fs l.
                frames (generate_stream E (request_model \<lparr>messages = [], data = d\<rparr>) pm cv) =
                  fs @ [l] \<and>
                list_all is_data fs \<and>
                (is_done l \<longleftrightarrow>
                   completes E (request_model \<lparr>messages = [], data = d\<rparr>) pm cv) \<and>
                (is_error l \<longleftrightarrow>
                   \<not> completes E (request_model \<lparr>messages = [], data = d\<rparr>) pm cv))))"
proof -
  let ?rq = "\<lparr>messages = [], data = d\<rparr>"
  have v: "validate_ChatRequest (JDict kvs) = Some ?rq"
    using assms by (simp add: validate_ChatRequest_def validate_list_def)
  have s: "status (post_chat E (Some (JDict kvs))) \<noteq> 422"
    using v chat_endpoint_status [of E ?rq]
    by (simp add: post_chat_def split: sum.splits)
  have f: "\<forall>e. format_messages_for_openai E [] = Inl e \<or>
               (\<exists>pm. format_messages_for_openai E [] = Inr pm \<and>
                     len_openai_messages E pm = Inl e) \<or>
               (\<exists>pm n. format_messages_for_openai E [] = Inr pm \<and>
                       len_openai_messages E pm = Inr n \<and>
                       StreamChunkConverter E (request_model ?rq) ''openai'' = Inl e) \<longrightarrow>
               post_chat E (Some (JDict kvs)) =
                 \<lparr>status = 500, payload = Json (JDict [(''detail'', JStr (exn_str e))])\<rparr>"
  proof (intro allI impI)
    fix e
    assume "format_messages_for_openai E [] = Inl e \<or>
               (\<exists>pm. format_messages_for_openai E [] = Inr pm \<and>
                     len_openai_messages E pm = Inl e) \<or>
               (\<exists>pm n. format_messages_for_openai E [] = Inr pm \<and>
                       len_openai_messages E pm = Inr n \<and>
                       StreamChunkConverter E (request_model ?rq) ''openai'' = Inl e)"
    then have "chat_endpoint E ?rq = Inl \<lparr>status_code = 500, detail = exn_str e\<rparr>"
      using chat_endpoint_raises [of E ?rq e] by simp
    then show "post_chat E (Some (JDict kvs)) =
                 \<lparr>status = 500, payload = Json (JDict [(''detail'', JStr (exn_str e))])\<rparr>"
      using v by (simp add: post_chat_def)
  qed
  have g: "\<forall>pm n cv.
            format_messages_for_openai E [] = Inr pm \<and>
            len_openai_messages E pm = Inr n \<and>
            StreamChunkConverter E (request_model ?rq) ''openai'' = Inr cv \<longrightarrow>
            post_chat E (Some (JDict kvs)) =
              \<lparr>status = 200,
               payload = EventStream
                 \<lparr>body_iterator = generate_stream E (request_model ?rq) pm cv,
                  media_type = ''text/event-stream'',
                  headers = [(''Cache-Control'', ''no-cache''), (''Connection'', ''keep-alive''),
                             (''X-Accel-Buffering'', ''no'')]\<rparr>\<rparr> \<and>
            (escaped (generate_stream E (request_model ?rq) pm cv) = None \<longrightarrow>
             (\<exists>fs l.
                frames (generate_stream E (request_model ?rq) pm cv) = fs @ [l] \<and>
                list_all is_data fs \<and>
                (is_done l \<longleftrightarrow> completes E (request_model ?rq) pm cv) \<and>
                (is_error l \<longleftrightarrow> \<not> completes E (request_model ?rq) pm cv)))"
  proof (intro allI impI)
    fix pm n cv
    assume a: "format_messages_for_openai E [] = Inr pm \<and>
            len_openai_messages E pm = Inr n \<and>
            StreamChunkConverter E (request_model ?rq) ''openai'' = Inr cv"
    have c: "chat_endpoint E ?rq =
           Inr \<lparr>body_iterator = generate_stream E (request_model ?rq) pm cv,
                media_type = ''text/event-stream'',
                headers = [(''Cache-Control'', ''no-cache''), (''Connection'', ''keep-alive''),
                           (''X-Accel-Buffering'', ''no'')]\<rparr>"
      using a chat_endpoint_returns [of E ?rq pm n cv] by simp
    have p: "post_chat E (Some (JDict kvs)) =
              \<lparr>status = 200,
               payload = EventStream
                 \<lparr>body_iterator = generate_stream E (request_model ?rq) pm cv,
                  media_type = ''text/event-stream'',
                  headers = [(''Cache-Control'', ''no-cache''), (''Connection'', ''keep-alive''),
                             (''X-Accel-Buffering'', ''no'')]\<rparr>\<rparr>"
      using v c by (simp add: post_chat_def)
    have q: "escaped (generate_stream E (request_model ?rq) pm cv) = None \<longrightarrow>
             (\<exists>fs l.
                frames (generate_stream E (request_model ?rq) pm cv) = fs @ [l] \<and>
                list_all is_data fs \<and>
                (is_done l \<longleftrightarrow> completes E (request_model ?rq) pm cv) \<and>
                (is_error l \<longleftrightarrow> \<not> completes E (request_model ?rq) pm cv))"
      using generate_stream_ends [of E "request_model ?rq" pm cv] by (rule impI)
    show "post_chat E (Some (JDict kvs)) =
              \<lparr>status = 200,
               payload = EventStream
                 \<lparr>body_iterator = generate_stream E (request_model ?rq) pm cv,
                  media_type = ''text/event-stream'',
                  headers = [(''Cache-Control'', ''no-cache''), (''Connection'', ''keep-alive''),
                             (''X-Accel-Buffering'', ''no'')]\<rparr>\<rparr> \<and>
            (escaped (generate_stream E (request_model ?rq) pm cv) = None \<longrightarrow>
             (\<exists>fs l.
                frames (generate_stream E (request_model ?rq) pm cv) = fs @ [l] \<and>
                list_all is_data fs \<and>
                (is_done l \<longleftrightarrow> completes E (request_model ?rq) pm cv) \<and>
                (is_error l \<longleftrightarrow> \<not> completes E (request_model ?rq) pm cv)))"
      by (rule conjI [OF p q])
  qed
  show ?thesis by (rule conjI [OF v conjI [OF s conjI [OF f g]]])
qed

theorem post_chat_empty_messages_witness:
  "validate_ChatRequest
     (JDict [(''messages'', JList []), (''data'', JDict [(''model'', JStr ''gpt-4o-mini'')])]) =
     Some \<lparr>messages = [], data = Some [(''model'', JStr ''gpt-4o-mini'')]\<rparr> \<and>
   post_chat example
     (Some (JDict [(''messages'', JList []),
                   (''data'', JDict [(''model'', JStr ''gpt-4o-mini'')])])) =
     \<lparr>status = 200,
      payload = EventStream
        \<lparr>body_iterator =
           \<lparr>frames = [ErrorFrame ''data: error:messages: array too short''],
            escaped = None,
            upstream_calls = [upstream_call (JStr ''gpt-4o-mini'') []]\<rparr>,
         media_type = ''text/event-stream'',
         headers = [(''Cache-Control'', ''no-cache''), (''Connection'', ''keep-alive''),
                    (''X-Accel-Buffering'', ''no'')]\<rparr>\<rparr> \<and>
   post_chat (example\<lparr>chat_completions_create := \<lambda>p. Inr (Upstream [] None)\<rparr>)
     (Some (JDict [(''messages'', JList []),
                   (''data'', JDict [(''model'', JStr ''gpt-4o-mini'')])])) =
     \<lparr>status = 200,
      payload = EventStream
        \<lparr>body_iterator =
           \<lparr>frames = [DoneFrame ''data: [DONE]''],
            escaped = None,
            upstream_calls = [upstream_call (JStr ''gpt-4o-mini'') []]\<rparr>,
         media_type = ''text/event-stream'',
         headers = [(''Cache-Control'', ''no-cache''), (''Connection'', ''keep-alive''),
                    (''X-Accel-Buffering'', ''no'')]\<rparr>\<rparr>"
proof -
  let ?kvs = "[(''messages'', JList []), (''data'', JDict [(''model'', JStr ''gpt-4o-mini'')])]"
  let ?E = "example\<lparr>chat_completions_create := \<lambda>p. Inr (Upstream [] None)\<rparr>"
  have h1: "map_of ?kvs ''messages'' = Some (JList [])"
    by simp
  have h2: "validate_optional validate_dict (map_of ?kvs ''data'') =
            Some (Some [(''model'', JStr ''gpt-4o-mini'')])"
    by (simp add: validate_optional_def validate_dict_def)
  have m: "request_model \<lparr>messages = [], data = Some [(''model'', JStr ''gpt-4o-mini'')]\<rparr> =
             JStr ''gpt-4o-mini''"
    by (simp add: request_model_def dict_get_def)
  have c1: "format_messages_for_openai example [] = Inr [] \<and>
            len_openai_messages example [] = Inr 0 \<and>
            StreamChunkConverter example (JStr ''gpt-4o-mini'') ''openai'' = Inr 0"
    by (simp add: example_def)
  have c2: "format_messages_for_openai ?E [] = Inr [] \<and>
            len_openai_messages ?E [] = Inr 0 \<and>
            StreamChunkConverter ?E (JStr ''gpt-4o-mini'') ''openai'' = Inr 0"
    by (simp add: example_def)
  have g1: "generate_stream example (JStr ''gpt-4o-mini'') [] 0 =
              \<lparr>frames = [ErrorFrame ''data: error:messages: array too short''],
               escaped = None, upstream_calls = [upstream_call (JStr ''gpt-4o-mini'') []]\<rparr>"
    by (simp add: generate_stream_def try_block_def Let_def example_def upstream_call_def
          render_def)
  have g2: "generate_stream ?E (JStr ''gpt-4o-mini'') [] 0 =
              \<lparr>frames = [DoneFrame ''data: [DONE]''],
               escaped = None, upstream_calls = [upstream_call (JStr ''gpt-4o-mini'') []]\<rparr>"
    by (simp add: generate_stream_def try_block_def Let_def example_def upstream_call_def)
  note T = post_chat_empty_messages [OF h1 h2]
  have v: "validate_ChatRequest (JDict ?kvs) =
             Some \<lparr>messages = [], data = Some [(''model'', JStr ''gpt-4o-mini'')]\<rparr>"
    using T [of example, THEN conjunct1] .
  have p1: "post_chat example (Some (JDict ?kvs)) =
              \<lparr>status = 200,
               payload = EventStream
                 \<lparr>body_iterator =
                    generate_stream example
                      (request_model \<lparr>messages = [], data = Some [(''model'', JStr ''gpt-4o-mini'')]\<rparr>)
                      [] 0,
                  media_type = ''text/event-stream'',
                  headers = [(''Cache-Control'', ''no-cache''), (''Connection'', ''keep-alive''),
                             (''X-Accel-Buffering'', ''no'')]\<rparr>\<rparr>"
    using T [of example, THEN conjunct2, THEN conjunct2, THEN conjunct2,
             THEN spec, THEN spec, THEN spec, THEN mp, THEN conjunct1, of "[]" 0 0] c1
    by (simp only: m)
  have p2: "post_chat ?E (Some (JDict ?kvs)) =
              \<lparr>status = 200,
               payload = EventStream
                 \<lparr>body_iterator =
                    generate_stream ?E
                      (request_model \<lparr>messages = [], data = Some [(''model'', JStr ''gpt-4o-mini'')]\<rparr>)
                      [] 0,
                  media_type = ''text/event-stream'',
                  headers = [(''Cache-Control'', ''no-cache''), (''Connection'', ''keep-alive''),
                             (''X-Accel-Buffering'', ''no'')]\<rparr>\<rparr>"
    using T [of ?E, THEN conjunct2, THEN conjunct2, THEN conjunct2,
             THEN spec, THEN spec, THEN spec, THEN mp, THEN conjunct1, of "[]" 0 0] c2
    by (simp only: m)
  show ?thesis using v p1 p2 by (simp only: m g1 g2 simp_thms)
qed

end
